theory Spec2Isabelle
  imports Main
begin

section \<open>Python values that the notebooks compute with\<close>

text \<open>
  The repository is two Jupyter notebooks.  \<^verbatim>\<open>ResNet-implementation.ipynb\<close> (below: the
  implementation notebook) defines \<^verbatim>\<open>residual_block\<close>, \<^verbatim>\<open>convolutional_block\<close> and
  \<^verbatim>\<open>ResNet50\<close> and trains the model; the second notebook, titled "Residual Neural Networks -
  a comprehensive overview" (below: the overview notebook), defines functions of the same
  three names.  The functions of the implementation notebook keep their names here; those
  of the overview notebook carry the suffix \<open>_overview\<close>.

  A Python exception is a value of type \<open>error\<close>, and a computation that may raise
  returns \<open>error + 'a\<close> with \<open>Inl\<close> for the exception.
\<close>

datatype error =
    ValueError string
  | NameError string
  | UnboundLocalError string
  | AttributeError string
  | TypeError string
  | IndexError string

text \<open>In Python \<^verbatim>\<open>UnboundLocalError\<close> is a subclass of \<^verbatim>\<open>NameError\<close>.\<close>

fun is_NameError :: "error \<Rightarrow> bool" where
  "is_NameError (NameError _) = True"
| "is_NameError (UnboundLocalError _) = True"
| "is_NameError _ = False"

text \<open>Statement sequencing: an exception in the first part skips the rest.\<close>

definition and_then :: "error + 'a \<Rightarrow> ('a \<Rightarrow> error + 'b) \<Rightarrow> error + 'b" where
  "and_then m k = (case m of Inl e \<Rightarrow> Inl e | Inr x \<Rightarrow> k x)"

text \<open>\<^verbatim>\<open>str(n)\<close> on an integer: its decimal digits, with a sign when negative.\<close>

definition digit_char :: "nat \<Rightarrow> char" where
  "digit_char d = ''0123456789'' ! d"

function str_nat :: "nat \<Rightarrow> string" where
  "str_nat n = (if n < 10 then [digit_char n] else str_nat (n div 10) @ [digit_char (n mod 10)])"
  by pat_completeness auto
termination
  by (relation "measure id") auto

definition str :: "int \<Rightarrow> string" where
  "str i = (if i < 0 then CHR ''-'' # str_nat (nat (- i)) else str_nat (nat i))"

text \<open>
  The tuple assignment \<^verbatim>\<open>F1, F2, F3 = filters\<close>: it raises \<^verbatim>\<open>ValueError\<close> unless the
  sequence has exactly three elements.
\<close>

definition unpack_error :: "nat \<Rightarrow> error" where
  "unpack_error n =
     (if n < 3
      then ValueError (''not enough values to unpack (expected 3, got '' @ str (int n) @ '')'')
      else ValueError ''too many values to unpack (expected 3)'')"

definition unpack3 :: "int list \<Rightarrow> error + int \<times> int \<times> int" where
  "unpack3 xs = (case xs of [a, b, c] \<Rightarrow> Inr (a, b, c) | _ \<Rightarrow> Inl (unpack_error (length xs)))"

text \<open>
  Reading a name.  A local variable of a function is unbound until its first assignment,
  and reading it then raises \<^verbatim>\<open>UnboundLocalError\<close>; a global name that no executed cell
  has bound raises \<^verbatim>\<open>NameError\<close>.  A binding is an \<open>option\<close>: \<open>None\<close> is unbound.
\<close>

definition read_local :: "string \<Rightarrow> 'a option \<Rightarrow> error + 'a" where
  "read_local x v = (case v of None \<Rightarrow> Inl (UnboundLocalError x) | Some a \<Rightarrow> Inr a)"

definition read_global :: "string \<Rightarrow> 'a option \<Rightarrow> error + 'a" where
  "read_global x v = (case v of None \<Rightarrow> Inl (NameError x) | Some a \<Rightarrow> Inr a)"

section \<open>The layer library\<close>

text \<open>
  The notebooks build a graph from the layers of an external library (Keras).  A layer is
  its class together with the constructor arguments the notebooks pass; an argument the
  notebooks leave out is written with the library's documented default (\<open>valid\<close> padding
  for \<^verbatim>\<open>Conv2D\<close>), and a layer constructed without \<^verbatim>\<open>name=\<close> has the name \<open>None\<close>: the
  name the library would generate is not modelled.
\<close>

datatype padding = valid | same

datatype initializer = glorot_uniform "int option"

datatype layer =
    Input "int list"
  | ZeroPadding2D "int \<times> int"
  | Conv2D int "int \<times> int" "int \<times> int" padding "string option" initializer
  | BatchNormalization int "string option"
  | Activation string
  | MaxPooling2D "int \<times> int" "int \<times> int"
  | AveragePooling2D "int \<times> int" padding
  | Add
  | Flatten
  | Dense int string "string option" initializer

text \<open>
  Applying a layer to tensors, \<^verbatim>\<open>Layer(...)(X)\<close> or \<^verbatim>\<open>Add()([X, Y])\<close>, is the library's
  business, so every function of the notebooks takes the application as its first
  parameter \<open>call\<close>.  The library builds a symbolic graph: a tensor is the node that
  produced it, that is the layer and the tensors it was applied to, and \<open>Node\<close> is then
  the instance of \<open>call\<close>.  The checks the library itself runs on a layer's arguments are
  outside the notebooks and are not part of \<open>call\<close>: where the library rejects an
  application (a stride, kernel size or filter count that is not positive, tensors that
  \<^verbatim>\<open>Add\<close> cannot sum) the code stops there with the library's exception, while \<open>call\<close>
  goes on.  The theorems on which exception a block ends in, and on the graph a block
  returns whatever its arguments, are therefore stated for arguments that the library
  accepts.
\<close>

datatype 'l graph = Node 'l "'l graph list"

type_synonym tensor = "layer graph"

type_synonym 't keras = "layer \<Rightarrow> 't list \<Rightarrow> 't"

section \<open>The implementation notebook\<close>

text \<open>\<^verbatim>\<open>def residual_block(X, f, filters, stage, block)\<close>\<close>

definition residual_block ::
  "'t keras \<Rightarrow> 't \<Rightarrow> int \<Rightarrow> int list \<Rightarrow> int \<Rightarrow> string \<Rightarrow> error + 't" where
  "residual_block call X f filters stage block =
    (let conv_name_base = ''res'' @ str stage @ block @ ''_branch'';
         bn_name_base = ''bn'' @ str stage @ block @ ''_branch''
     in and_then (unpack3 filters) (\<lambda>(F1, F2, F3).
     let X_shortcut = X;
         X = call (Conv2D F1 (1, 1) (1, 1) valid (Some (conv_name_base @ ''2a''))
                     (glorot_uniform (Some 0))) [X];
         X = call (BatchNormalization 3 (Some (bn_name_base @ ''2a''))) [X];
         X = call (Activation ''relu'') [X];
         X = call (Conv2D F2 (f, f) (1, 1) same (Some (conv_name_base @ ''2b''))
                     (glorot_uniform (Some 0))) [X];
         X = call (BatchNormalization 3 (Some (bn_name_base @ ''2b''))) [X];
         X = call (Activation ''relu'') [X];
         X = call (Conv2D F3 (1, 1) (1, 1) valid (Some (conv_name_base @ ''2c''))
                     (glorot_uniform (Some 0))) [X];
         X = call (BatchNormalization 3 (Some (bn_name_base @ ''2c''))) [X];
         X = call Add [X, X_shortcut];
         X = call (Activation ''relu'') [X]
     in Inr X))"

text \<open>\<^verbatim>\<open>def convolutional_block(X, f, filters, stage, block, s=2)\<close>\<close>

definition convolutional_block ::
  "'t keras \<Rightarrow> 't \<Rightarrow> int \<Rightarrow> int list \<Rightarrow> int \<Rightarrow> string \<Rightarrow> int \<Rightarrow> error + 't" where
  "convolutional_block call X f filters stage block s =
    (let conv_name_base = ''res'' @ str stage @ block @ ''_branch'';
         bn_name_base = ''bn'' @ str stage @ block @ ''_branch''
     in and_then (unpack3 filters) (\<lambda>(F1, F2, F3).
     let X_shortcut = X;
         X = call (Conv2D F1 (1, 1) (s, s) valid (Some (conv_name_base @ ''2a''))
                     (glorot_uniform (Some 0))) [X];
         X = call (BatchNormalization 3 (Some (bn_name_base @ ''2a''))) [X];
         X = call (Activation ''relu'') [X];
         X = call (Conv2D F2 (f, f) (1, 1) same (Some (conv_name_base @ ''2b''))
                     (glorot_uniform (Some 0))) [X];
         X = call (BatchNormalization 3 (Some (bn_name_base @ ''2b''))) [X];
         X = call (Activation ''relu'') [X];
         X = call (Conv2D F3 (1, 1) (1, 1) valid (Some (conv_name_base @ ''2c''))
                     (glorot_uniform (Some 0))) [X];
         X = call (BatchNormalization 3 (Some (bn_name_base @ ''2c''))) [X];
         X_shortcut = call (Conv2D F3 (1, 1) (s, s) valid (Some (conv_name_base @ ''1''))
                              (glorot_uniform (Some 0))) [X_shortcut];
         X_shortcut = call (BatchNormalization 3 (Some (bn_name_base @ ''1''))) [X_shortcut];
         X = call Add [X, X_shortcut];
         X = call (Activation ''relu'') [X]
     in Inr X))"

text \<open>
  \<^verbatim>\<open>ResNet50\<close> finds the two block functions in the notebook's global namespace when it
  calls them, so the bindings of these names are a parameter: \<open>None\<close> is a name that no
  executed cell has defined.  The overview notebook calls a third name,
  \<^verbatim>\<open>identity_block\<close>.
\<close>

type_synonym 't conv_fn = "'t \<Rightarrow> int \<Rightarrow> int list \<Rightarrow> int \<Rightarrow> string \<Rightarrow> int \<Rightarrow> error + 't"
type_synonym 't res_fn = "'t \<Rightarrow> int \<Rightarrow> int list \<Rightarrow> int \<Rightarrow> string \<Rightarrow> error + 't"

record 't globals =
  convolutional_block_binding :: "'t conv_fn option"
  residual_block_binding :: "'t res_fn option"
  identity_block_binding :: "'t res_fn option"

definition call_global :: "string \<Rightarrow> 'f option \<Rightarrow> ('f \<Rightarrow> error + 'a) \<Rightarrow> error + 'a" where
  "call_global x binding args = and_then (read_global x binding) args"

record 't model =
  inputs :: 't
  outputs :: 't
  name :: string

text \<open>\<^verbatim>\<open>def ResNet50(input_shape = (28, 28, 1), classes = 10)\<close>\<close>

definition ResNet50 :: "'t keras \<Rightarrow> 't globals \<Rightarrow> int list \<Rightarrow> int \<Rightarrow> error + 't model" where
  "ResNet50 call G input_shape classes =
    (let X_input = call (Input input_shape) [];
         X = call (ZeroPadding2D (3, 3)) [X_input];
         X = call (Conv2D 64 (7, 7) (2, 2) valid (Some ''conv1'') (glorot_uniform (Some 0))) [X];
         X = call (BatchNormalization 3 (Some ''bn_conv1'')) [X];
         X = call (Activation ''relu'') [X];
         X = call (MaxPooling2D (3, 3) (2, 2)) [X]
     in
     and_then (call_global ''convolutional_block'' (convolutional_block_binding G)
                 (\<lambda>g. g X 3 [64, 64, 256] 2 ''a'' 1)) (\<lambda>X.
     and_then (call_global ''residual_block'' (residual_block_binding G)
                 (\<lambda>g. g X 3 [64, 64, 256] 2 ''b'')) (\<lambda>X.
     and_then (call_global ''residual_block'' (residual_block_binding G)
                 (\<lambda>g. g X 3 [64, 64, 256] 2 ''c'')) (\<lambda>X.
     and_then (call_global ''convolutional_block'' (convolutional_block_binding G)
                 (\<lambda>g. g X 3 [128, 128, 512] 3 ''a'' 2)) (\<lambda>X.
     and_then (call_global ''residual_block'' (residual_block_binding G)
                 (\<lambda>g. g X 3 [128, 128, 512] 3 ''b'')) (\<lambda>X.
     and_then (call_global ''residual_block'' (residual_block_binding G)
                 (\<lambda>g. g X 3 [128, 128, 512] 3 ''c'')) (\<lambda>X.
     and_then (call_global ''residual_block'' (residual_block_binding G)
                 (\<lambda>g. g X 3 [128, 128, 512] 3 ''d'')) (\<lambda>X.
     and_then (call_global ''convolutional_block'' (convolutional_block_binding G)
                 (\<lambda>g. g X 3 [256, 256, 1024] 4 ''a'' 2)) (\<lambda>X.
     and_then (call_global ''residual_block'' (residual_block_binding G)
                 (\<lambda>g. g X 3 [256, 256, 1024] 4 ''b'')) (\<lambda>X.
     and_then (call_global ''residual_block'' (residual_block_binding G)
                 (\<lambda>g. g X 3 [256, 256, 1024] 4 ''c'')) (\<lambda>X.
     and_then (call_global ''residual_block'' (residual_block_binding G)
                 (\<lambda>g. g X 3 [256, 256, 1024] 4 ''d'')) (\<lambda>X.
     and_then (call_global ''residual_block'' (residual_block_binding G)
                 (\<lambda>g. g X 3 [256, 256, 1024] 4 ''e'')) (\<lambda>X.
     and_then (call_global ''residual_block'' (residual_block_binding G)
                 (\<lambda>g. g X 3 [256, 256, 1024] 4 ''f'')) (\<lambda>X.
     and_then (call_global ''convolutional_block'' (convolutional_block_binding G)
                 (\<lambda>g. g X 3 [512, 512, 2048] 5 ''a'' 2)) (\<lambda>X.
     and_then (call_global ''residual_block'' (residual_block_binding G)
                 (\<lambda>g. g X 3 [512, 512, 2048] 5 ''b'')) (\<lambda>X.
     and_then (call_global ''residual_block'' (residual_block_binding G)
                 (\<lambda>g. g X 3 [512, 512, 2048] 5 ''c'')) (\<lambda>X.
     let X = call (AveragePooling2D (2, 2) same) [X];
         X = call Flatten [X];
         X = call (Dense classes ''softmax'' (Some (''fc'' @ str classes))
                     (glorot_uniform (Some 0))) [X];
         model = \<lparr>inputs = X_input, outputs = X, name = ''ResNet50''\<rparr>
     in Inr model)))))))))))))))))"

text \<open>
  The global namespace after the notebook's three defining cells have run:
  \<^verbatim>\<open>identity_block\<close> is defined nowhere in this notebook.
\<close>

definition implementation_globals :: "'t keras \<Rightarrow> 't globals" where
  "implementation_globals call =
     \<lparr>convolutional_block_binding = Some (convolutional_block call),
      residual_block_binding = Some (residual_block call),
      identity_block_binding = None\<rparr>"

section \<open>The overview notebook\<close>

text \<open>
  \<^verbatim>\<open>def residual_block(X, f, filters, stage, block)\<close>: the layers are constructed without
  names, and the saved input is called \<^verbatim>\<open>X_in\<close>.
\<close>

definition residual_block_overview ::
  "'t keras \<Rightarrow> 't \<Rightarrow> int \<Rightarrow> int list \<Rightarrow> int \<Rightarrow> string \<Rightarrow> error + 't" where
  "residual_block_overview call X f filters stage block =
     and_then (unpack3 filters) (\<lambda>(F1, F2, F3).
     let X_in = X;
         X = call (Conv2D F1 (1, 1) (1, 1) valid None (glorot_uniform (Some 0))) [X];
         X = call (BatchNormalization 3 None) [X];
         X = call (Activation ''relu'') [X];
         X = call (Conv2D F2 (f, f) (1, 1) same None (glorot_uniform (Some 0))) [X];
         X = call (BatchNormalization 3 None) [X];
         X = call (Activation ''relu'') [X];
         X = call (Conv2D F3 (1, 1) (1, 1) valid None (glorot_uniform (Some 0))) [X];
         X = call (BatchNormalization 3 None) [X];
         X = call Add [X, X_in];
         X = call (Activation ''relu'') [X]
     in Inr X)"

text \<open>
  \<^verbatim>\<open>def convolutional_block(X, f, filters, stage, block, s=2)\<close>.  The body assigns
  \<^verbatim>\<open>X_shortcut\<close>, so the name is a local variable of the function, unbound on entry; its
  only assignments are the two statements of the shortcut path, which read it on their
  right-hand sides.  The binding is carried explicitly: \<open>None\<close> until the first assignment
  completes.  In \<^verbatim>\<open>Conv2D(...)(X_shortcut)\<close> the layer is constructed before the argument
  is read.
\<close>

definition convolutional_block_overview ::
  "'t keras \<Rightarrow> 't \<Rightarrow> int \<Rightarrow> int list \<Rightarrow> int \<Rightarrow> string \<Rightarrow> int \<Rightarrow> error + 't" where
  "convolutional_block_overview call X f filters stage block s =
     and_then (unpack3 filters) (\<lambda>(F1, F2, F3).
     let X_shortcut = None;
         X_in = X;
         X = call (Conv2D F1 (1, 1) (s, s) valid None (glorot_uniform (Some 0))) [X];
         X = call (BatchNormalization 3 None) [X];
         X = call (Activation ''relu'') [X];
         X = call (Conv2D F2 (f, f) (1, 1) same None (glorot_uniform (Some 0))) [X];
         X = call (BatchNormalization 3 None) [X];
         X = call (Activation ''relu'') [X];
         X = call (Conv2D F3 (1, 1) (1, 1) valid None (glorot_uniform (Some 0))) [X];
         X = call (BatchNormalization 3 None) [X];
         shortcut_conv = Conv2D F3 (1, 1) (s, s) valid None (glorot_uniform (Some 0))
     in
     and_then (read_local ''X_shortcut'' X_shortcut) (\<lambda>arg.
     let X_shortcut = Some (call shortcut_conv [arg]) in
     and_then (read_local ''X_shortcut'' X_shortcut) (\<lambda>arg.
     let X_shortcut = Some (call (BatchNormalization 3 None) [arg]);
         X = call Add [X, X_in];
         X = call (Activation ''relu'') [X]
     in Inr X)))"

text \<open>\<^verbatim>\<open>def ResNet50(input_shape = (64, 64, 3), classes = 6)\<close>\<close>

definition ResNet50_overview ::
  "'t keras \<Rightarrow> 't globals \<Rightarrow> int list \<Rightarrow> int \<Rightarrow> error + 't model" where
  "ResNet50_overview call G input_shape classes =
    (let X_input = call (Input input_shape) [];
         X = call (ZeroPadding2D (3, 3)) [X_input];
         X = call (Conv2D 64 (7, 7) (2, 2) valid (Some ''conv1'') (glorot_uniform (Some 0))) [X];
         X = call (BatchNormalization 3 (Some ''bn_conv1'')) [X];
         X = call (Activation ''relu'') [X];
         X = call (MaxPooling2D (3, 3) (2, 2)) [X]
     in
     and_then (call_global ''convolutional_block'' (convolutional_block_binding G)
                 (\<lambda>g. g X 3 [64, 64, 256] 2 ''a'' 1)) (\<lambda>X.
     and_then (call_global ''identity_block'' (identity_block_binding G)
                 (\<lambda>g. g X 3 [64, 64, 256] 2 ''b'')) (\<lambda>X.
     and_then (call_global ''identity_block'' (identity_block_binding G)
                 (\<lambda>g. g X 3 [64, 64, 256] 2 ''c'')) (\<lambda>X.
     and_then (call_global ''convolutional_block'' (convolutional_block_binding G)
                 (\<lambda>g. g X 3 [128, 128, 512] 3 ''a'' 2)) (\<lambda>X.
     and_then (call_global ''identity_block'' (identity_block_binding G)
                 (\<lambda>g. g X 3 [128, 128, 512] 3 ''b'')) (\<lambda>X.
     and_then (call_global ''identity_block'' (identity_block_binding G)
                 (\<lambda>g. g X 3 [128, 128, 512] 3 ''c'')) (\<lambda>X.
     and_then (call_global ''identity_block'' (identity_block_binding G)
                 (\<lambda>g. g X 3 [128, 128, 512] 3 ''d'')) (\<lambda>X.
     and_then (call_global ''convolutional_block'' (convolutional_block_binding G)
                 (\<lambda>g. g X 3 [256, 256, 1024] 4 ''a'' 2)) (\<lambda>X.
     and_then (call_global ''identity_block'' (identity_block_binding G)
                 (\<lambda>g. g X 3 [256, 256, 1024] 4 ''b'')) (\<lambda>X.
     and_then (call_global ''identity_block'' (identity_block_binding G)
                 (\<lambda>g. g X 3 [256, 256, 1024] 4 ''c'')) (\<lambda>X.
     and_then (call_global ''identity_block'' (identity_block_binding G)
                 (\<lambda>g. g X 3 [256, 256, 1024] 4 ''d'')) (\<lambda>X.
     and_then (call_global ''identity_block'' (identity_block_binding G)
                 (\<lambda>g. g X 3 [256, 256, 1024] 4 ''e'')) (\<lambda>X.
     and_then (call_global ''identity_block'' (identity_block_binding G)
                 (\<lambda>g. g X 3 [256, 256, 1024] 4 ''f'')) (\<lambda>X.
     and_then (call_global ''convolutional_block'' (convolutional_block_binding G)
                 (\<lambda>g. g X 3 [512, 512, 2048] 5 ''a'' 2)) (\<lambda>X.
     and_then (call_global ''identity_block'' (identity_block_binding G)
                 (\<lambda>g. g X 3 [512, 512, 2048] 5 ''b'')) (\<lambda>X.
     and_then (call_global ''identity_block'' (identity_block_binding G)
                 (\<lambda>g. g X 3 [512, 512, 2048] 5 ''c'')) (\<lambda>X.
     let X = call (AveragePooling2D (2, 2) same) [X];
         X = call Flatten [X];
         X = call (Dense classes ''softmax'' (Some (''fc'' @ str classes))
                     (glorot_uniform (Some 0))) [X];
         model = \<lparr>inputs = X_input, outputs = X, name = ''ResNet50''\<rparr>
     in Inr model)))))))))))))))))"

text \<open>
  The global namespace after the overview notebook's three defining cells have run: the
  notebook defines \<^verbatim>\<open>residual_block\<close> and \<^verbatim>\<open>convolutional_block\<close>, and no
  \<^verbatim>\<open>identity_block\<close>.
\<close>

definition overview_globals :: "'t keras \<Rightarrow> 't globals" where
  "overview_globals call =
     \<lparr>convolutional_block_binding = Some (convolutional_block_overview call),
      residual_block_binding = Some (residual_block_overview call),
      identity_block_binding = None\<rparr>"

section \<open>The notebook as a sequence of cells\<close>

text \<open>
  A cell of the implementation notebook runs in the kernel's global namespace, a map from
  names to values.  Of a value only what the cells themselves inspect is kept: an integer,
  a tuple of integers, the shape and dtype of an array, the model that \<^verbatim>\<open>ResNet50\<close>
  returned.  Calls into the libraries (\<^verbatim>\<open>mnist.load_data\<close>, \<^verbatim>\<open>astype\<close>,
  \<^verbatim>\<open>to_categorical\<close>, \<^verbatim>\<open>compile\<close>, \<^verbatim>\<open>fit\<close>, \<^verbatim>\<open>plt.plot\<close>) are taken to return once the
  names they are given have been read; the notebook's recorded outputs show them returning
  under the \<^verbatim>\<open>channels_last\<close> image format.
\<close>

datatype pyval =
    IntV int
  | TupleV "int list"
  | ArrayV "int list" string
  | ImportedV string
  | FunctionV string
  | ModelV "tensor model"
  | HistoryV

type_synonym namespace = "string \<Rightarrow> pyval option"

type_synonym cell = "namespace \<Rightarrow> error + namespace"

definition lookup :: "namespace \<Rightarrow> string \<Rightarrow> error + pyval" where
  "lookup G x = read_global x (G x)"

definition get_int :: "namespace \<Rightarrow> string \<Rightarrow> error + int" where
  "get_int G x =
     and_then (lookup G x) (\<lambda>v. case v of IntV i \<Rightarrow> Inr i | _ \<Rightarrow> Inl (TypeError x))"

definition get_array :: "namespace \<Rightarrow> string \<Rightarrow> error + int list \<times> string" where
  "get_array G x =
     and_then (lookup G x)
       (\<lambda>v. case v of ArrayV shp dtype \<Rightarrow> Inr (shp, dtype) | _ \<Rightarrow> Inl (AttributeError x))"

definition get_model :: "namespace \<Rightarrow> string \<Rightarrow> error + tensor model" where
  "get_model G x =
     and_then (lookup G x) (\<lambda>v. case v of ModelV m \<Rightarrow> Inr m | _ \<Rightarrow> Inl (AttributeError x))"

text \<open>\<^verbatim>\<open>a.shape[0]\<close> and \<^verbatim>\<open>a.reshape(...)\<close>, which needs the same number of elements.\<close>

definition first_dim :: "int list \<Rightarrow> error + int" where
  "first_dim shp =
     (case shp of [] \<Rightarrow> Inl (IndexError ''tuple index out of range'') | n # _ \<Rightarrow> Inr n)"

definition reshape :: "int list \<times> string \<Rightarrow> int list \<Rightarrow> error + pyval" where
  "reshape a new_shape =
     (if prod_list (fst a) = prod_list new_shape then Inr (ArrayV new_shape (snd a))
      else Inl (ValueError ''cannot reshape array''))"

text \<open>The first cell: the imports.\<close>

definition imports_cell :: cell where
  "imports_cell G = Inr (G
     (''np'' \<mapsto> ImportedV ''numpy'',
      ''pd'' \<mapsto> ImportedV ''pandas'',
      ''plt'' \<mapsto> ImportedV ''matplotlib.pyplot'',
      ''keras'' \<mapsto> ImportedV ''keras'',
      ''mnist'' \<mapsto> ImportedV ''keras.datasets.mnist'',
      ''Sequential'' \<mapsto> ImportedV ''keras.models.Sequential'',
      ''Input'' \<mapsto> ImportedV ''keras.layers.Input'',
      ''Add'' \<mapsto> ImportedV ''keras.layers.Add'',
      ''Dense'' \<mapsto> ImportedV ''keras.layers.Dense'',
      ''Activation'' \<mapsto> ImportedV ''keras.layers.Activation'',
      ''ZeroPadding2D'' \<mapsto> ImportedV ''keras.layers.ZeroPadding2D'',
      ''BatchNormalization'' \<mapsto> ImportedV ''keras.layers.BatchNormalization'',
      ''Flatten'' \<mapsto> ImportedV ''keras.layers.Flatten'',
      ''Conv2D'' \<mapsto> ImportedV ''keras.layers.Conv2D'',
      ''AveragePooling2D'' \<mapsto> ImportedV ''keras.layers.AveragePooling2D'',
      ''MaxPooling2D'' \<mapsto> ImportedV ''keras.layers.MaxPooling2D'',
      ''GlobalMaxPooling2D'' \<mapsto> ImportedV ''keras.layers.GlobalMaxPooling2D'',
      ''Model'' \<mapsto> ImportedV ''keras.models.Model'',
      ''load_model'' \<mapsto> ImportedV ''keras.models.load_model'',
      ''K'' \<mapsto> ImportedV ''keras.backend'',
      ''glorot_uniform'' \<mapsto> ImportedV ''keras.initializers.glorot_uniform''))"

text \<open>
  The statements of the data-formatting cell.
  \<^verbatim>\<open>(x_train, y_train), (x_test, y_test) = mnist.load_data()\<close> binds the four arrays of the
  MNIST data set; the notebook's third cell records the shape \<^verbatim>\<open>(60000, 28, 28, 1)\<close> of
  \<^verbatim>\<open>x_train\<close> after the reshape.
\<close>

definition mnist_load_data :: cell where
  "mnist_load_data G =
     and_then (lookup G ''mnist'') (\<lambda>_.
     Inr (G(''x_train'' \<mapsto> ArrayV [60000, 28, 28] ''uint8'',
            ''y_train'' \<mapsto> ArrayV [60000] ''uint8'',
            ''x_test'' \<mapsto> ArrayV [10000, 28, 28] ''uint8'',
            ''y_test'' \<mapsto> ArrayV [10000] ''uint8'')))"

text \<open>
  \<^verbatim>\<open>x = x.reshape(x.shape[0], ...)\<close>, the new shape given from \<^verbatim>\<open>x.shape[0]\<close>,
  \<^verbatim>\<open>img_rows\<close> and \<^verbatim>\<open>img_cols\<close>.
\<close>

definition reshape_stmt :: "string \<Rightarrow> (int \<Rightarrow> int \<Rightarrow> int \<Rightarrow> int list) \<Rightarrow> cell" where
  "reshape_stmt x new_shape G =
     and_then (get_array G x) (\<lambda>a.
     and_then (first_dim (fst a)) (\<lambda>n.
     and_then (get_int G ''img_rows'') (\<lambda>img_rows.
     and_then (get_int G ''img_cols'') (\<lambda>img_cols.
     and_then (reshape a (new_shape n img_rows img_cols)) (\<lambda>v.
     Inr (G(x \<mapsto> v)))))))"

text \<open>\<^verbatim>\<open>x = x.astype(dtype)\<close>, \<^verbatim>\<open>x /= 255\<close> and \<^verbatim>\<open>y = keras.utils.to_categorical(y, num_classes)\<close>.\<close>

definition astype_stmt :: "string \<Rightarrow> string \<Rightarrow> cell" where
  "astype_stmt x dtype G = and_then (get_array G x) (\<lambda>a. Inr (G(x \<mapsto> ArrayV (fst a) dtype)))"

definition divide_stmt :: "string \<Rightarrow> cell" where
  "divide_stmt x G = and_then (get_array G x) (\<lambda>a. Inr (G(x \<mapsto> ArrayV (fst a) (snd a))))"

definition to_categorical_stmt :: "string \<Rightarrow> cell" where
  "to_categorical_stmt y G =
     and_then (lookup G ''keras'') (\<lambda>_.
     and_then (get_array G y) (\<lambda>a.
     and_then (get_int G ''num_classes'') (\<lambda>num_classes.
     Inr (G(y \<mapsto> ArrayV (fst a @ [num_classes]) ''float32'')))))"

text \<open>
  The data-formatting cell.  What \<^verbatim>\<open>K.image_data_format()\<close> returns is the library's
  configuration and a parameter here.  Only the \<^verbatim>\<open>else\<close> branch assigns
  \<^verbatim>\<open>input_shape\<close>.
\<close>

definition data_formatting_cell :: "string \<Rightarrow> cell" where
  "data_formatting_cell image_data_format G =
    (let G = G(''batch_size'' \<mapsto> IntV 128);
         G = G(''num_classes'' \<mapsto> IntV 10);
         G = G(''epochs'' \<mapsto> IntV 2);
         G = G(''img_rows'' \<mapsto> IntV 28, ''img_cols'' \<mapsto> IntV 28)
     in
     and_then (mnist_load_data G) (\<lambda>G.
     and_then (lookup G ''K'') (\<lambda>_.
     and_then
       (if image_data_format = ''channels_first'' then
          and_then (reshape_stmt ''x_train''
                      (\<lambda>n img_rows img_cols. [n, 1, img_rows, img_cols]) G) (\<lambda>G.
          reshape_stmt ''x_test'' (\<lambda>n img_rows img_cols. [n, 1, img_rows, img_cols]) G)
        else
          and_then (reshape_stmt ''x_train''
                      (\<lambda>n img_rows img_cols. [n, img_rows, img_cols, 1]) G) (\<lambda>G.
          and_then (reshape_stmt ''x_test''
                      (\<lambda>n img_rows img_cols. [n, img_rows, img_cols, 1]) G) (\<lambda>G.
          and_then (get_int G ''img_rows'') (\<lambda>img_rows.
          and_then (get_int G ''img_cols'') (\<lambda>img_cols.
          Inr (G(''input_shape'' \<mapsto> TupleV [img_rows, img_cols, 1])))))))
       (\<lambda>G.
     and_then (astype_stmt ''x_train'' ''float32'' G) (\<lambda>G.
     and_then (astype_stmt ''x_test'' ''float32'' G) (\<lambda>G.
     and_then (divide_stmt ''x_train'' G) (\<lambda>G.
     and_then (divide_stmt ''x_test'' G) (\<lambda>G.
     and_then (to_categorical_stmt ''y_train'' G) (\<lambda>G.
     to_categorical_stmt ''y_test'' G)))))))))"

text \<open>The cell \<^verbatim>\<open>x_train.shape\<close>, and a cell that holds one \<^verbatim>\<open>def\<close>.\<close>

definition shape_cell :: cell where
  "shape_cell G = and_then (get_array G ''x_train'') (\<lambda>a. Inr G)"

definition def_cell :: "string \<Rightarrow> cell" where
  "def_cell x G = Inr (G(x \<mapsto> FunctionV x))"

text \<open>
  \<^verbatim>\<open>model = ResNet50(input_shape=(28,28,1), classes=num_classes)\<close> followed by
  \<^verbatim>\<open>model.compile(...)\<close>.  \<^verbatim>\<open>ResNet50\<close> finds the block functions in the namespace as the
  \<^verbatim>\<open>def\<close> cells left it.
\<close>

definition block_binding :: "namespace \<Rightarrow> string \<Rightarrow> 'f \<Rightarrow> 'f option" where
  "block_binding G x fn = (if G x = Some (FunctionV x) then Some fn else None)"

definition block_bindings :: "namespace \<Rightarrow> tensor globals" where
  "block_bindings G =
     \<lparr>convolutional_block_binding =
        block_binding G ''convolutional_block'' (convolutional_block Node),
      residual_block_binding = block_binding G ''residual_block'' (residual_block Node),
      identity_block_binding = None\<rparr>"

definition model_cell :: cell where
  "model_cell G =
     and_then (lookup G ''ResNet50'') (\<lambda>_.
     and_then (get_int G ''num_classes'') (\<lambda>num_classes.
     and_then (ResNet50 Node (block_bindings G) [28, 28, 1] num_classes) (\<lambda>model.
     let G = G(''model'' \<mapsto> ModelV model) in
     and_then (get_model G ''model'') (\<lambda>_. Inr G))))"

text \<open>
  \<^verbatim>\<open>model.fit(x_train, y_train, epochs=epochs, batch_size=batch_size)\<close> is an expression
  statement: the \<^verbatim>\<open>History\<close> object it returns is displayed as the cell's output and
  assigned to no name.
\<close>

definition fit_cell :: cell where
  "fit_cell G =
     and_then (get_model G ''model'') (\<lambda>model.
     and_then (get_array G ''x_train'') (\<lambda>x_train.
     and_then (get_array G ''y_train'') (\<lambda>y_train.
     and_then (get_int G ''epochs'') (\<lambda>epochs.
     and_then (get_int G ''batch_size'') (\<lambda>batch_size.
     let displayed = HistoryV in Inr G)))))"

text \<open>
  The two plotting cells read \<^verbatim>\<open>plt\<close> and \<^verbatim>\<open>history\<close> and assign nothing:
  \<^verbatim>\<open>plt.plot(history.history['acc'])\<close>, \<^verbatim>\<open>plt.plot(history.history['val_acc'])\<close>, then five
  calls on \<^verbatim>\<open>plt\<close>.
\<close>

fun read_names :: "string list \<Rightarrow> cell" where
  "read_names [] G = Inr G"
| "read_names (x # xs) G = and_then (lookup G x) (\<lambda>_. read_names xs G)"

definition accuracy_plot_cell :: cell where
  "accuracy_plot_cell =
     read_names [''plt'', ''history'', ''plt'', ''history'',
                 ''plt'', ''plt'', ''plt'', ''plt'', ''plt'']"

definition loss_plot_cell :: cell where
  "loss_plot_cell =
     read_names [''plt'', ''history'', ''plt'', ''history'',
                 ''plt'', ''plt'', ''plt'', ''plt'', ''plt'']"

text \<open>Running cells one after the other stops at the first exception.\<close>

fun run_cells :: "cell list \<Rightarrow> cell" where
  "run_cells [] G = Inr G"
| "run_cells (c # cs) G = and_then (c G) (run_cells cs)"

text \<open>The code cells of the implementation notebook in their listed order.\<close>

definition notebook_cells :: "string \<Rightarrow> cell list" where
  "notebook_cells image_data_format =
     [imports_cell,
      data_formatting_cell image_data_format,
      shape_cell,
      def_cell ''residual_block'',
      def_cell ''convolutional_block'',
      def_cell ''ResNet50'',
      model_cell,
      fit_cell,
      accuracy_plot_cell,
      loss_plot_cell]"

section \<open>Reading the built graph\<close>

text \<open>
  The class of a layer, and a run of one-input layers applied one after the other.
  \<open>map_graph class_name\<close> keeps of a graph the layer classes and the wiring.
\<close>

fun class_name :: "layer \<Rightarrow> string" where
  "class_name (Input _) = ''InputLayer''"
| "class_name (ZeroPadding2D _) = ''ZeroPadding2D''"
| "class_name (Conv2D _ _ _ _ _ _) = ''Conv2D''"
| "class_name (BatchNormalization _ _) = ''BatchNormalization''"
| "class_name (Activation _) = ''Activation''"
| "class_name (MaxPooling2D _ _) = ''MaxPooling2D''"
| "class_name (AveragePooling2D _ _) = ''AveragePooling2D''"
| "class_name Add = ''Add''"
| "class_name Flatten = ''Flatten''"
| "class_name (Dense _ _ _ _) = ''Dense''"

definition chain :: "'l list \<Rightarrow> 'l graph \<Rightarrow> 'l graph" where
  "chain ls X = foldl (\<lambda>t l. Node l [t]) X ls"

definition main_path_classes :: "string list" where
  "main_path_classes =
     [''Conv2D'', ''BatchNormalization'', ''Activation'',
      ''Conv2D'', ''BatchNormalization'', ''Activation'',
      ''Conv2D'', ''BatchNormalization'']"

text \<open>
  The shape of a tensor, without the batch dimension, by the library's documented rules
  for channels-last data.  The length of a convolved or pooled dimension is the library's
  \<^verbatim>\<open>conv_output_length\<close>; the division is Python's floor division, and a zero stride is
  its \<^verbatim>\<open>ZeroDivisionError\<close>.  \<open>None\<close> stands for a layer applied to tensors it does not
  accept; \<^verbatim>\<open>Add\<close> is given for two tensors of the same rank, where a dimension of length
  one is broadcast.
\<close>

definition conv_output_length :: "int \<Rightarrow> int \<Rightarrow> padding \<Rightarrow> int \<Rightarrow> int option" where
  "conv_output_length input_length filter_size pad stride =
     (let output_length = (case pad of same \<Rightarrow> input_length
                                     | valid \<Rightarrow> input_length - filter_size + 1)
      in if stride = 0 then None else Some ((output_length + stride - 1) div stride))"

definition feature_map :: "int list list \<Rightarrow> (int \<times> int \<times> int) option" where
  "feature_map ins = (case ins of [[h, w, c]] \<Rightarrow> Some (h, w, c) | _ \<Rightarrow> None)"

definition single :: "int list list \<Rightarrow> int list option" where
  "single ins = (case ins of [shp] \<Rightarrow> Some shp | _ \<Rightarrow> None)"

fun elemwise_shape :: "int list \<Rightarrow> int list \<Rightarrow> int list option" where
  "elemwise_shape [] [] = Some []"
| "elemwise_shape (i # is) (j # js) =
     (case elemwise_shape is js of
        None \<Rightarrow> None
      | Some ks \<Rightarrow> if i = 1 then Some (j # ks)
                   else if j = 1 then Some (i # ks)
                   else if i = j then Some (i # ks)
                   else None)"
| "elemwise_shape _ _ = None"

definition window_shape ::
  "int \<times> int \<times> int \<Rightarrow> int \<times> int \<Rightarrow> padding \<Rightarrow> int \<times> int \<Rightarrow> int \<Rightarrow> int list option" where
  "window_shape hwc k pad st n =
     (case hwc of (h, w, c) \<Rightarrow>
        (case conv_output_length h (fst k) pad (fst st) of
           None \<Rightarrow> None
         | Some rows \<Rightarrow>
            (case conv_output_length w (snd k) pad (snd st) of
               None \<Rightarrow> None
             | Some cols \<Rightarrow> Some [rows, cols, n])))"

fun layer_shape :: "layer \<Rightarrow> int list list \<Rightarrow> int list option" where
  "layer_shape (Input shp) ins = (if ins = [] then Some shp else None)"
| "layer_shape (ZeroPadding2D p) ins =
     (case feature_map ins of
        None \<Rightarrow> None
      | Some (h, w, c) \<Rightarrow> Some [h + 2 * fst p, w + 2 * snd p, c])"
| "layer_shape (Conv2D n k st pad _ _) ins =
     (case feature_map ins of
        None \<Rightarrow> None
      | Some hwc \<Rightarrow> window_shape hwc k pad st n)"
| "layer_shape (BatchNormalization axis _) ins =
     (case single ins of
        None \<Rightarrow> None
      | Some shp \<Rightarrow>
          if (1 \<le> axis \<and> axis \<le> int (length shp)) \<or> (- int (length shp) \<le> axis \<and> axis \<le> - 1)
          then Some shp else None)"
| "layer_shape (Activation _) ins = single ins"
| "layer_shape (MaxPooling2D k st) ins =
     (case feature_map ins of
        None \<Rightarrow> None
      | Some (h, w, c) \<Rightarrow> window_shape (h, w, c) k valid st c)"
| "layer_shape (AveragePooling2D k pad) ins =
     (case feature_map ins of
        None \<Rightarrow> None
      | Some (h, w, c) \<Rightarrow> window_shape (h, w, c) k pad k c)"
| "layer_shape Add ins = (case ins of [a, b] \<Rightarrow> elemwise_shape a b | _ \<Rightarrow> None)"
| "layer_shape Flatten ins =
     (case single ins of None \<Rightarrow> None | Some shp \<Rightarrow> Some [prod_list shp])"
| "layer_shape (Dense n _ _ _) ins =
     (case single ins of
        None \<Rightarrow> None
      | Some shp \<Rightarrow> if shp = [] then None else Some (butlast shp @ [n]))"

fun shape_of :: "tensor \<Rightarrow> int list option" where
  "shape_of (Node l xs) =
     (case those (map shape_of xs) of None \<Rightarrow> None | Some ins \<Rightarrow> layer_shape l ins)"

text \<open>
  The kernel of a layer.  \<^verbatim>\<open>Conv2D\<close> and \<^verbatim>\<open>Dense\<close> are the layers that own a kernel, and
  the library fills it from the layer's \<^verbatim>\<open>kernel_initializer\<close> when the weights are
  created.  How the library draws the values is a parameter \<open>draw\<close>: it is given the
  initializer, the state \<open>r\<close> of the library's random source at that moment and the
  kernel's shape.
\<close>

fun kernel_initializer :: "layer \<Rightarrow> initializer option" where
  "kernel_initializer (Conv2D n k st pad nm init) = Some init"
| "kernel_initializer (Dense n act nm init) = Some init"
| "kernel_initializer _ = None"

fun kernel_shape :: "layer \<Rightarrow> int list \<Rightarrow> int list" where
  "kernel_shape (Conv2D n k st pad nm init) input_shape = [fst k, snd k, last input_shape, n]"
| "kernel_shape (Dense n act nm init) input_shape = [last input_shape, n]"
| "kernel_shape _ input_shape = []"

definition initial_kernel ::
  "(initializer \<Rightarrow> 'r \<Rightarrow> int list \<Rightarrow> 'w) \<Rightarrow> 'r \<Rightarrow> layer \<Rightarrow> int list \<Rightarrow> 'w option" where
  "initial_kernel draw r l input_shape =
     map_option (\<lambda>i. draw i r (kernel_shape l input_shape)) (kernel_initializer l)"

definition seeded_layer :: "layer \<Rightarrow> bool" where
  "seeded_layer l =
     (case kernel_initializer l of None \<Rightarrow> True | Some i \<Rightarrow> i = glorot_uniform (Some 0))"

definition seeded_graph :: "tensor \<Rightarrow> bool" where
  "seeded_graph X = (\<forall>l \<in> set_graph X. seeded_layer l)"

text \<open>
  A random source for examples: its state is an integer, a seeded initializer draws from
  its seed and an unseeded one from the state.
\<close>

definition example_draw :: "initializer \<Rightarrow> int \<Rightarrow> int list \<Rightarrow> int \<times> int list" where
  "example_draw i r shp = (case i of glorot_uniform seed \<Rightarrow>
      (case seed of None \<Rightarrow> (r, shp) | Some n \<Rightarrow> (n, shp)))"

section \<open>Recording the block calls of \<^verbatim>\<open>ResNet50\<close>\<close>

text \<open>
  Which blocks \<^verbatim>\<open>ResNet50\<close> calls, and with which arguments, is read off by running it
  with the three block names bound to functions that record their call and return: the
  tensor is then the list of block calls made so far, and a layer passes it on.  A call
  records the name called, \<^verbatim>\<open>f\<close>, \<^verbatim>\<open>filters\<close>, \<^verbatim>\<open>stage\<close>, \<^verbatim>\<open>block\<close> and, for
  \<^verbatim>\<open>convolutional_block\<close>, \<^verbatim>\<open>s\<close>.
\<close>

datatype block_call = BlockCall string int "int list" int string "int option"

fun callee :: "block_call \<Rightarrow> string" where
  "callee (BlockCall g f filters stage block s) = g"

fun call_filters :: "block_call \<Rightarrow> int list" where
  "call_filters (BlockCall g f filters stage block s) = filters"

fun call_stage :: "block_call \<Rightarrow> int" where
  "call_stage (BlockCall g f filters stage block s) = stage"

fun call_stride :: "block_call \<Rightarrow> int option" where
  "call_stride (BlockCall g f filters stage block s) = s"

definition record_conv :: "string \<Rightarrow> block_call list conv_fn" where
  "record_conv g log f filters stage block s =
     Inr (log @ [BlockCall g f filters stage block (Some s)])"

definition record_res :: "string \<Rightarrow> block_call list res_fn" where
  "record_res g log f filters stage block =
     Inr (log @ [BlockCall g f filters stage block None])"

definition pass_log :: "block_call list keras" where
  "pass_log l logs = concat logs"

definition recorders :: "block_call list globals" where
  "recorders =
     \<lparr>convolutional_block_binding = Some (record_conv ''convolutional_block''),
      residual_block_binding = Some (record_res ''residual_block''),
      identity_block_binding = Some (record_res ''identity_block'')\<rparr>"

definition block_calls :: "error + block_call list model \<Rightarrow> block_call list" where
  "block_calls r = (case r of Inl e \<Rightarrow> [] | Inr m \<Rightarrow> outputs m)"

definition stage_calls :: "int \<Rightarrow> block_call list \<Rightarrow> block_call list" where
  "stage_calls n log = filter (\<lambda>c. call_stage c = n) log"

definition stage_blocks :: "int \<Rightarrow> block_call list \<Rightarrow> (string \<times> int list) list" where
  "stage_blocks n log = map (\<lambda>c. (callee c, call_filters c)) (stage_calls n log)"

definition first_block :: "int \<Rightarrow> block_call list \<Rightarrow> (string \<times> int option) option" where
  "first_block n log =
     (case stage_calls n log of [] \<Rightarrow> None | c # _ \<Rightarrow> Some (callee c, call_stride c))"

definition implementation_calls :: "int list \<Rightarrow> int \<Rightarrow> block_call list" where
  "implementation_calls input_shape classes =
     block_calls (ResNet50 pass_log recorders input_shape classes)"

definition overview_calls :: "int list \<Rightarrow> int \<Rightarrow> block_call list" where
  "overview_calls input_shape classes =
     block_calls (ResNet50_overview pass_log recorders input_shape classes)"

section \<open>Basic facts\<close>

lemma str_digits: "str 2 = ''2''" "str 10 = ''10''" "str 2048 = ''2048''" "str (- 7) = ''-7''"
  by (simp_all add: str_def digit_char_def)

lemma unpack3_three: "unpack3 [a, b, c] = Inr (a, b, c)"
  by (simp add: unpack3_def)

lemma length_three: "length xs = 3 \<Longrightarrow> \<exists>a b c. xs = [a, b, c]"
  by (auto simp add: numeral_3_eq_3 length_Suc_conv)

lemma unpack3_other: "length xs \<noteq> 3 \<Longrightarrow> unpack3 xs = Inl (unpack_error (length xs))"
  by (auto simp add: unpack3_def split: list.splits)

lemma and_then_Inr: "and_then m k = Inr y \<longleftrightarrow> (\<exists>x. m = Inr x \<and> k x = Inr y)"
  by (cases m) (simp_all add: and_then_def)

lemma and_then_returns: "\<not> isl (and_then m k) \<longleftrightarrow> \<not> isl m \<and> \<not> isl (k (projr m))"
  by (cases m) (simp_all add: and_then_def)

lemma elemwise_shape_same: "elemwise_shape a a = Some a"
  by (induction a) auto

lemma deeper_graph: "Node l [Node l' [X]] \<noteq> X"
proof
  assume "Node l [Node l' [X]] = X"
  then have "size (Node l [Node l' [X]]) = size X" by simp
  then show False by simp
qed

lemmas shape_defs = feature_map_def single_def window_shape_def conv_output_length_def

section \<open>The blocks\<close>

text \<open>
  Claim C6.  \<^verbatim>\<open>residual_block\<close>, in both notebooks, returns a ReLU applied to the sum of
  its main path and its own input \<open>X\<close>, where the main path is \<open>X\<close> passed through
  convolution, batch normalisation, ReLU, convolution, batch normalisation, ReLU,
  convolution, batch normalisation.  When the input is a feature map of \<open>h\<close> rows,
  \<open>w\<close> columns and \<open>F3\<close> channels, so is the output.
\<close>

theorem residual_block_adds_input:
  "(\<exists>Y ls. residual_block Node X f [F1, F2, F3] stage block = Inr Y \<and>
      Y = Node (Activation ''relu'') [Node Add [chain ls X, X]] \<and>
      map class_name ls = main_path_classes \<and>
      (shape_of X = Some [h, w, F3] \<longrightarrow> shape_of Y = Some [h, w, F3])) \<and>
   (\<exists>Y ls. residual_block_overview Node X f [F1, F2, F3] stage block = Inr Y \<and>
      Y = Node (Activation ''relu'') [Node Add [chain ls X, X]] \<and>
      map class_name ls = main_path_classes \<and>
      (shape_of X = Some [h, w, F3] \<longrightarrow> shape_of Y = Some [h, w, F3]))"
proof
  let ?ls = "[Conv2D F1 (1, 1) (1, 1) valid (Some (''res'' @ str stage @ block @ ''_branch2a''))
                (glorot_uniform (Some 0)),
              BatchNormalization 3 (Some (''bn'' @ str stage @ block @ ''_branch2a'')),
              Activation ''relu'',
              Conv2D F2 (f, f) (1, 1) same (Some (''res'' @ str stage @ block @ ''_branch2b''))
                (glorot_uniform (Some 0)),
              BatchNormalization 3 (Some (''bn'' @ str stage @ block @ ''_branch2b'')),
              Activation ''relu'',
              Conv2D F3 (1, 1) (1, 1) valid (Some (''res'' @ str stage @ block @ ''_branch2c''))
                (glorot_uniform (Some 0)),
              BatchNormalization 3 (Some (''bn'' @ str stage @ block @ ''_branch2c''))]"
  let ?Y = "Node (Activation ''relu'') [Node Add [chain ?ls X, X]]"
  have "residual_block Node X f [F1, F2, F3] stage block = Inr ?Y"
    by (simp add: residual_block_def unpack3_three and_then_def chain_def)
  moreover have "map class_name ?ls = main_path_classes"
    by (simp add: main_path_classes_def)
  moreover have "shape_of X = Some [h, w, F3] \<longrightarrow> shape_of ?Y = Some [h, w, F3]"
    by (simp add: chain_def shape_defs elemwise_shape_same)
  ultimately show "\<exists>Y ls. residual_block Node X f [F1, F2, F3] stage block = Inr Y \<and>
      Y = Node (Activation ''relu'') [Node Add [chain ls X, X]] \<and>
      map class_name ls = main_path_classes \<and>
      (shape_of X = Some [h, w, F3] \<longrightarrow> shape_of Y = Some [h, w, F3])"
    by blast
next
  let ?ls = "[Conv2D F1 (1, 1) (1, 1) valid None (glorot_uniform (Some 0)),
              BatchNormalization 3 None,
              Activation ''relu'',
              Conv2D F2 (f, f) (1, 1) same None (glorot_uniform (Some 0)),
              BatchNormalization 3 None,
              Activation ''relu'',
              Conv2D F3 (1, 1) (1, 1) valid None (glorot_uniform (Some 0)),
              BatchNormalization 3 None]"
  let ?Y = "Node (Activation ''relu'') [Node Add [chain ?ls X, X]]"
  have "residual_block_overview Node X f [F1, F2, F3] stage block = Inr ?Y"
    by (simp add: residual_block_overview_def unpack3_three and_then_def chain_def)
  moreover have "map class_name ?ls = main_path_classes"
    by (simp add: main_path_classes_def)
  moreover have "shape_of X = Some [h, w, F3] \<longrightarrow> shape_of ?Y = Some [h, w, F3]"
    by (simp add: chain_def shape_defs elemwise_shape_same)
  ultimately show "\<exists>Y ls. residual_block_overview Node X f [F1, F2, F3] stage block = Inr Y \<and>
      Y = Node (Activation ''relu'') [Node Add [chain ls X, X]] \<and>
      map class_name ls = main_path_classes \<and>
      (shape_of X = Some [h, w, F3] \<longrightarrow> shape_of Y = Some [h, w, F3])"
    by blast
qed

theorem residual_block_adds_input_witness:
  "shape_of (Node (Input [6, 6, 256]) []) = Some [6, 6, 256] \<and>
   (\<exists>Y. residual_block Node (Node (Input [6, 6, 256]) []) 3 [64, 64, 256] 2 ''b'' = Inr Y \<and>
        shape_of Y = Some [6, 6, 256]) \<and>
   (\<exists>Y. residual_block_overview Node (Node (Input [6, 6, 256]) []) 3 [64, 64, 256] 2 ''b'' = Inr Y \<and>
        shape_of Y = Some [6, 6, 256])"
proof -
  have h: "shape_of (Node (Input [6, 6, 256]) []) = Some [6, 6, 256]"
    by simp
  show ?thesis
    using h residual_block_adds_input [where X = "Node (Input [6, 6, 256]) []" and f = 3
        and ?F1.0 = 64 and ?F2.0 = 64 and ?F3.0 = 256 and stage = 2 and block = "''b''"
        and h = 6 and w = 6]
    by blast
qed

text \<open>
  Claim C7.  \<^verbatim>\<open>convolutional_block\<close> of the implementation notebook adds to its main
  path not the input \<open>X\<close> but the shortcut: \<open>X\<close> passed through a \<^verbatim>\<open>Conv2D\<close> with \<open>F3\<close>
  filters, kernel \<open>(1, 1)\<close>, strides \<open>(s, s)\<close> and \<open>valid\<close> padding, then through batch
  normalisation.  For a stride \<open>s > 0\<close> and an input feature map of \<open>h\<close> rows and
  \<open>w\<close> columns, the main path, the shortcut and the block's output all have
  \<open>(h + s - 1) div s\<close> rows, \<open>(w + s - 1) div s\<close> columns (the lengths divided by \<open>s\<close>,
  rounded up) and \<open>F3\<close> channels.
\<close>

theorem convolutional_block_projects_shortcut:
  "\<exists>Y ls shortcut.
      convolutional_block Node X f [F1, F2, F3] stage block s = Inr Y \<and>
      Y = Node (Activation ''relu'') [Node Add [chain ls X, shortcut]] \<and>
      map class_name ls = main_path_classes \<and>
      shortcut = Node (BatchNormalization 3 (Some (''bn'' @ str stage @ block @ ''_branch1'')))
                   [Node (Conv2D F3 (1, 1) (s, s) valid
                           (Some (''res'' @ str stage @ block @ ''_branch1''))
                           (glorot_uniform (Some 0))) [X]] \<and>
      shortcut \<noteq> X \<and>
      (0 < s \<and> shape_of X = Some [h, w, c] \<longrightarrow>
         shape_of (chain ls X) = Some [(h + s - 1) div s, (w + s - 1) div s, F3] \<and>
         shape_of shortcut = Some [(h + s - 1) div s, (w + s - 1) div s, F3] \<and>
         shape_of Y = Some [(h + s - 1) div s, (w + s - 1) div s, F3])"
proof -
  let ?ls = "[Conv2D F1 (1, 1) (s, s) valid (Some (''res'' @ str stage @ block @ ''_branch2a''))
                (glorot_uniform (Some 0)),
              BatchNormalization 3 (Some (''bn'' @ str stage @ block @ ''_branch2a'')),
              Activation ''relu'',
              Conv2D F2 (f, f) (1, 1) same (Some (''res'' @ str stage @ block @ ''_branch2b''))
                (glorot_uniform (Some 0)),
              BatchNormalization 3 (Some (''bn'' @ str stage @ block @ ''_branch2b'')),
              Activation ''relu'',
              Conv2D F3 (1, 1) (1, 1) valid (Some (''res'' @ str stage @ block @ ''_branch2c''))
                (glorot_uniform (Some 0)),
              BatchNormalization 3 (Some (''bn'' @ str stage @ block @ ''_branch2c''))]"
  let ?shortcut = "Node (BatchNormalization 3 (Some (''bn'' @ str stage @ block @ ''_branch1'')))
                   [Node (Conv2D F3 (1, 1) (s, s) valid
                           (Some (''res'' @ str stage @ block @ ''_branch1''))
                           (glorot_uniform (Some 0))) [X]]"
  let ?Y = "Node (Activation ''relu'') [Node Add [chain ?ls X, ?shortcut]]"
  let ?out = "Some [(h + s - 1) div s, (w + s - 1) div s, F3]"
  have "convolutional_block Node X f [F1, F2, F3] stage block s = Inr ?Y"
    by (simp add: convolutional_block_def unpack3_three and_then_def chain_def)
  moreover have "map class_name ?ls = main_path_classes"
    by (simp add: main_path_classes_def)
  moreover have "?shortcut \<noteq> X"
    by (rule deeper_graph)
  moreover have "0 < s \<and> shape_of X = Some [h, w, c] \<longrightarrow>
      shape_of (chain ?ls X) = ?out \<and> shape_of ?shortcut = ?out \<and> shape_of ?Y = ?out"
    by (simp add: chain_def shape_defs elemwise_shape_same)
  ultimately show ?thesis
    by blast
qed

theorem convolutional_block_projects_shortcut_witness:
  "(0::int) < 2 \<and> shape_of (Node (Input [6, 6, 256]) []) = Some [6, 6, 256] \<and>
   (\<exists>Y. convolutional_block Node (Node (Input [6, 6, 256]) []) 3 [128, 128, 512] 3 ''a'' 2 = Inr Y \<and>
        shape_of Y = Some [3, 3, 512])"
proof -
  have h: "(0::int) < 2 \<and> shape_of (Node (Input [6, 6, 256]) []) = Some [6, 6, 256]"
    by simp
  have "((6::int) + 2 - 1) div 2 = 3"
    by simp
  then show ?thesis
    using h convolutional_block_projects_shortcut [where X = "Node (Input [6, 6, 256]) []"
        and f = 3 and ?F1.0 = 128 and ?F2.0 = 128 and ?F3.0 = 512 and stage = 3
        and block = "''a''" and s = 2 and h = 6 and w = 6 and c = 256]
    by auto
qed

text \<open>
  Claim C8.  \<^verbatim>\<open>residual_block\<close> and \<^verbatim>\<open>convolutional_block\<close> of the implementation notebook
  raise the unpacking \<^verbatim>\<open>ValueError\<close> when \<open>filters\<close> does not have exactly three
  elements, and with three elements they do not end in an unpacking error.  For three
  filters and arguments that the library accepts (a positive kernel size \<open>f\<close>, positive
  filter counts, a positive stride \<open>s\<close>, an input feature map of positive dimensions,
  and for \<^verbatim>\<open>residual_block\<close> an input with \<open>F3\<close> channels, as \<^verbatim>\<open>Add\<close> requires) they
  return a graph that has a shape under the library's rules, and the layer classes of the
  graph and their wiring are the same for all such \<open>f\<close>, \<open>filters\<close>, \<open>stage\<close>, \<open>block\<close>
  and \<open>s\<close>: the eight layers of the main path over the input, for
  \<^verbatim>\<open>convolutional_block\<close> a convolution and a batch normalisation over the input as the
  shortcut, then \<^verbatim>\<open>Add\<close> and a final activation.
\<close>

theorem blocks_fixed_sequence:
  "(length filters \<noteq> 3 \<longrightarrow>
      residual_block call X f filters stage block = Inl (unpack_error (length filters)) \<and>
      convolutional_block call X f filters stage block s = Inl (unpack_error (length filters))) \<and>
   (length filters = 3 \<longrightarrow>
      residual_block call X f filters stage block \<noteq> Inl (unpack_error n) \<and>
      convolutional_block call X f filters stage block s \<noteq> Inl (unpack_error n)) \<and>
   (0 < f \<and> 0 < F1 \<and> 0 < F2 \<and> 0 < F3 \<and>
    shape_of T = Some [h, w, F3] \<and> 0 < h \<and> 0 < w \<longrightarrow>
      (\<exists>Y. residual_block Node T f [F1, F2, F3] stage block = Inr Y \<and>
           shape_of Y = Some [h, w, F3] \<and>
           map_graph class_name Y =
             Node ''Activation''
               [Node ''Add'' [chain main_path_classes (map_graph class_name T),
                              map_graph class_name T]])) \<and>
   (0 < s \<and> 0 < f \<and> 0 < F1 \<and> 0 < F2 \<and> 0 < F3 \<and>
    shape_of T = Some [h, w, c] \<and> 0 < h \<and> 0 < w \<and> 0 < c \<longrightarrow>
      (\<exists>Y. convolutional_block Node T f [F1, F2, F3] stage block s = Inr Y \<and>
           shape_of Y = Some [(h + s - 1) div s, (w + s - 1) div s, F3] \<and>
           map_graph class_name Y =
             Node ''Activation''
               [Node ''Add'' [chain main_path_classes (map_graph class_name T),
                              chain [''Conv2D'', ''BatchNormalization'']
                                (map_graph class_name T)]]))"
proof -
  have a: "length filters \<noteq> 3 \<longrightarrow>
      residual_block call X f filters stage block = Inl (unpack_error (length filters)) \<and>
      convolutional_block call X f filters stage block s = Inl (unpack_error (length filters))"
    by (simp add: residual_block_def convolutional_block_def unpack3_other and_then_def)
  have b: "length filters = 3 \<longrightarrow>
      residual_block call X f filters stage block \<noteq> Inl (unpack_error n) \<and>
      convolutional_block call X f filters stage block s \<noteq> Inl (unpack_error n)"
  proof
    assume "length filters = 3"
    then obtain a b c where "filters = [a, b, c]"
      using length_three by blast
    then show "residual_block call X f filters stage block \<noteq> Inl (unpack_error n) \<and>
      convolutional_block call X f filters stage block s \<noteq> Inl (unpack_error n)"
      by (simp add: residual_block_def convolutional_block_def unpack3_three and_then_def Let_def)
  qed
  have c: "0 < f \<and> 0 < F1 \<and> 0 < F2 \<and> 0 < F3 \<and>
    shape_of T = Some [h, w, F3] \<and> 0 < h \<and> 0 < w \<longrightarrow>
      (\<exists>Y. residual_block Node T f [F1, F2, F3] stage block = Inr Y \<and>
           shape_of Y = Some [h, w, F3] \<and>
           map_graph class_name Y =
             Node ''Activation''
               [Node ''Add'' [chain main_path_classes (map_graph class_name T),
                              map_graph class_name T]])"
    by (simp add: residual_block_def unpack3_three and_then_def chain_def
        main_path_classes_def shape_defs elemwise_shape_same)
  have d: "0 < s \<and> 0 < f \<and> 0 < F1 \<and> 0 < F2 \<and> 0 < F3 \<and>
    shape_of T = Some [h, w, c] \<and> 0 < h \<and> 0 < w \<and> 0 < c \<longrightarrow>
      (\<exists>Y. convolutional_block Node T f [F1, F2, F3] stage block s = Inr Y \<and>
           shape_of Y = Some [(h + s - 1) div s, (w + s - 1) div s, F3] \<and>
           map_graph class_name Y =
             Node ''Activation''
               [Node ''Add'' [chain main_path_classes (map_graph class_name T),
                              chain [''Conv2D'', ''BatchNormalization'']
                                (map_graph class_name T)]])"
    by (simp add: convolutional_block_def unpack3_three and_then_def chain_def
        main_path_classes_def shape_defs elemwise_shape_same)
  from a b c d show ?thesis
    by blast
qed

theorem blocks_fixed_sequence_witness:
  "length [64, 64 :: int] \<noteq> 3 \<and> length [64, 64, 256 :: int] = 3 \<and>
   (0::int) < 2 \<and> (0::int) < 3 \<and> (0::int) < 64 \<and> (0::int) < 256 \<and> (0::int) < 6 \<and>
   shape_of (Node (Input [6, 6, 256]) []) = Some [6, 6, 256] \<and>
   residual_block Node (Node (Input [6, 6, 256]) []) 3 [64, 64] 2 ''b''
     = Inl (ValueError ''not enough values to unpack (expected 3, got 2)'') \<and>
   convolutional_block Node (Node (Input [6, 6, 256]) []) 3 [64, 64] 2 ''b'' 2
     = Inl (ValueError ''not enough values to unpack (expected 3, got 2)'') \<and>
   residual_block Node (Node (Input [6, 6, 256]) []) 3 [64, 64, 256] 2 ''b''
     \<noteq> Inl (unpack_error 2) \<and>
   (\<exists>Y. residual_block Node (Node (Input [6, 6, 256]) []) 3 [64, 64, 256] 2 ''b'' = Inr Y \<and>
        shape_of Y = Some [6, 6, 256] \<and>
        map_graph class_name Y =
          Node ''Activation''
            [Node ''Add'' [chain main_path_classes (Node ''InputLayer'' []),
                           Node ''InputLayer'' []]]) \<and>
   (\<exists>Y. convolutional_block Node (Node (Input [6, 6, 256]) []) 3 [64, 64, 256] 2 ''b'' 2 = Inr Y \<and>
        shape_of Y = Some [3, 3, 256] \<and>
        map_graph class_name Y =
          Node ''Activation''
            [Node ''Add'' [chain main_path_classes (Node ''InputLayer'' []),
                           chain [''Conv2D'', ''BatchNormalization'']
                             (Node ''InputLayer'' [])]])"
proof -
  have h: "length [64, 64 :: int] \<noteq> 3 \<and> length [64, 64, 256 :: int] = 3 \<and>
     (0::int) < 2 \<and> (0::int) < 3 \<and> (0::int) < 64 \<and> (0::int) < 256 \<and> (0::int) < 6 \<and>
     shape_of (Node (Input [6, 6, 256]) []) = Some [6, 6, 256]"
    by simp
  have e: "unpack_error (length [64, 64 :: int])
             = ValueError ''not enough values to unpack (expected 3, got 2)''"
    by (simp add: unpack_error_def str_digits)
  have d: "((6::int) + 2 - 1) div 2 = 3"
    by simp
  show ?thesis
    using h e d
      blocks_fixed_sequence [where filters = "[64, 64]" and call = Node
        and X = "Node (Input [6, 6, 256]) []" and f = 3 and stage = 2 and block = "''b''"
        and s = 2]
      blocks_fixed_sequence [where filters = "[64, 64, 256]" and call = Node
        and X = "Node (Input [6, 6, 256]) []" and T = "Node (Input [6, 6, 256]) []"
        and f = 3 and stage = 2 and block = "''b''" and s = 2 and n = 2
        and ?F1.0 = 64 and ?F2.0 = 64 and ?F3.0 = 256 and h = 6 and w = 6 and c = 256]
    by simp
qed

text \<open>
  Claim C4.  No call of the overview notebook's \<^verbatim>\<open>convolutional_block\<close> returns, whatever
  the library and the arguments.  For three filters and arguments that the library accepts
  on the main path (a positive stride \<open>s\<close>, a positive kernel size \<open>f\<close>, positive filter
  counts, an input feature map of positive dimensions), the eight layer applications of
  the main path have a shape of positive dimensions under the library's rules, and the
  call ends in the \<^verbatim>\<open>UnboundLocalError\<close>, a \<^verbatim>\<open>NameError\<close>, for the local \<^verbatim>\<open>X_shortcut\<close>
  that the shortcut path reads before any assignment to it.
\<close>

theorem convolutional_block_overview_raises_NameError:
  "(\<exists>e. convolutional_block_overview call T f filters stage block s = Inl e) \<and>
   (0 < s \<and> 0 < f \<and> 0 < F1 \<and> 0 < F2 \<and> 0 < F3 \<and>
    shape_of X = Some [h, w, c] \<and> 0 < h \<and> 0 < w \<and> 0 < c \<longrightarrow>
      shape_of (chain [Conv2D F1 (1, 1) (s, s) valid None (glorot_uniform (Some 0)),
                       BatchNormalization 3 None,
                       Activation ''relu'',
                       Conv2D F2 (f, f) (1, 1) same None (glorot_uniform (Some 0)),
                       BatchNormalization 3 None,
                       Activation ''relu'',
                       Conv2D F3 (1, 1) (1, 1) valid None (glorot_uniform (Some 0)),
                       BatchNormalization 3 None] X)
        = Some [(h + s - 1) div s, (w + s - 1) div s, F3] \<and>
      0 < (h + s - 1) div s \<and> 0 < (w + s - 1) div s \<and>
      convolutional_block_overview Node X f [F1, F2, F3] stage block s
        = Inl (UnboundLocalError ''X_shortcut'') \<and>
      is_NameError (UnboundLocalError ''X_shortcut''))"
proof -
  have "\<exists>e. convolutional_block_overview call T f filters stage block s = Inl e"
  proof (cases "length filters = 3")
    case True
    then obtain a b c where "filters = [a, b, c]"
      using length_three by blast
    then show ?thesis
      by (simp add: convolutional_block_overview_def unpack3_three and_then_def read_local_def)
  next
    case False
    then show ?thesis
      by (simp add: convolutional_block_overview_def unpack3_other and_then_def)
  qed
  moreover have "0 < (h + s - 1) div s" if "0 < s" and "0 < h" for h s :: int
    using that by (simp add: pos_imp_zdiv_pos_iff)
  moreover have "convolutional_block_overview Node X f [F1, F2, F3] stage block s
        = Inl (UnboundLocalError ''X_shortcut'')"
    by (simp add: convolutional_block_overview_def unpack3_three and_then_def read_local_def)
  ultimately show ?thesis
    by (simp add: chain_def shape_defs)
qed

theorem convolutional_block_overview_raises_NameError_witness:
  "(0::int) < 1 \<and> (0::int) < 3 \<and> (0::int) < 64 \<and> (0::int) < 256 \<and>
   shape_of (Node (Input [15, 15, 64]) []) = Some [15, 15, 64] \<and> (0::int) < 15 \<and>
   convolutional_block_overview Node (Node (Input [15, 15, 64]) []) 3 [64, 64, 256] 2 ''a'' 1
     = Inl (UnboundLocalError ''X_shortcut'') \<and>
   is_NameError (UnboundLocalError ''X_shortcut'')"
proof -
  have h: "(0::int) < 1 \<and> (0::int) < 3 \<and> (0::int) < 64 \<and> (0::int) < 64 \<and> (0::int) < 256 \<and>
     shape_of (Node (Input [15, 15, 64]) []) = Some [15, 15, 64] \<and>
     (0::int) < 15 \<and> (0::int) < 15 \<and> (0::int) < 64"
    by simp
  show ?thesis
    using h convolutional_block_overview_raises_NameError [where call = Node and T = "Node (Input [15, 15, 64]) []"
        and filters = "[64, 64, 256]" and X = "Node (Input [15, 15, 64]) []" and f = 3
        and ?F1.0 = 64 and ?F2.0 = 64 and ?F3.0 = 256 and stage = 2 and block = "''a''"
        and s = 1 and h = 15 and w = 15 and c = 64]
    by simp
qed

section \<open>The stages of \<^verbatim>\<open>ResNet50\<close>\<close>

lemma implementation_calls_eq:
  "implementation_calls input_shape classes =
     [BlockCall ''convolutional_block'' 3 [64, 64, 256] 2 ''a'' (Some 1),
      BlockCall ''residual_block'' 3 [64, 64, 256] 2 ''b'' None,
      BlockCall ''residual_block'' 3 [64, 64, 256] 2 ''c'' None,
      BlockCall ''convolutional_block'' 3 [128, 128, 512] 3 ''a'' (Some 2),
      BlockCall ''residual_block'' 3 [128, 128, 512] 3 ''b'' None,
      BlockCall ''residual_block'' 3 [128, 128, 512] 3 ''c'' None,
      BlockCall ''residual_block'' 3 [128, 128, 512] 3 ''d'' None,
      BlockCall ''convolutional_block'' 3 [256, 256, 1024] 4 ''a'' (Some 2),
      BlockCall ''residual_block'' 3 [256, 256, 1024] 4 ''b'' None,
      BlockCall ''residual_block'' 3 [256, 256, 1024] 4 ''c'' None,
      BlockCall ''residual_block'' 3 [256, 256, 1024] 4 ''d'' None,
      BlockCall ''residual_block'' 3 [256, 256, 1024] 4 ''e'' None,
      BlockCall ''residual_block'' 3 [256, 256, 1024] 4 ''f'' None,
      BlockCall ''convolutional_block'' 3 [512, 512, 2048] 5 ''a'' (Some 2),
      BlockCall ''residual_block'' 3 [512, 512, 2048] 5 ''b'' None,
      BlockCall ''residual_block'' 3 [512, 512, 2048] 5 ''c'' None]"
  by (simp add: implementation_calls_def block_calls_def ResNet50_def recorders_def
      record_conv_def record_res_def pass_log_def call_global_def read_global_def and_then_def)

lemma overview_calls_eq:
  "overview_calls input_shape classes =
     [BlockCall ''convolutional_block'' 3 [64, 64, 256] 2 ''a'' (Some 1),
      BlockCall ''identity_block'' 3 [64, 64, 256] 2 ''b'' None,
      BlockCall ''identity_block'' 3 [64, 64, 256] 2 ''c'' None,
      BlockCall ''convolutional_block'' 3 [128, 128, 512] 3 ''a'' (Some 2),
      BlockCall ''identity_block'' 3 [128, 128, 512] 3 ''b'' None,
      BlockCall ''identity_block'' 3 [128, 128, 512] 3 ''c'' None,
      BlockCall ''identity_block'' 3 [128, 128, 512] 3 ''d'' None,
      BlockCall ''convolutional_block'' 3 [256, 256, 1024] 4 ''a'' (Some 2),
      BlockCall ''identity_block'' 3 [256, 256, 1024] 4 ''b'' None,
      BlockCall ''identity_block'' 3 [256, 256, 1024] 4 ''c'' None,
      BlockCall ''identity_block'' 3 [256, 256, 1024] 4 ''d'' None,
      BlockCall ''identity_block'' 3 [256, 256, 1024] 4 ''e'' None,
      BlockCall ''identity_block'' 3 [256, 256, 1024] 4 ''f'' None,
      BlockCall ''convolutional_block'' 3 [512, 512, 2048] 5 ''a'' (Some 2),
      BlockCall ''identity_block'' 3 [512, 512, 2048] 5 ''b'' None,
      BlockCall ''identity_block'' 3 [512, 512, 2048] 5 ''c'' None]"
  by (simp add: overview_calls_def block_calls_def ResNet50_overview_def recorders_def
      record_conv_def record_res_def pass_log_def call_global_def read_global_def and_then_def)

text \<open>
  Claim C1.  In both notebooks \<^verbatim>\<open>ResNet50\<close> makes sixteen block calls, stage after stage.
  Stage 2 is one \<^verbatim>\<open>convolutional_block\<close> followed by two residual (in the overview
  notebook: identity) blocks, stage 3 one followed by three, stage 4 one followed by five,
  stage 5 one followed by two, and every block of a stage is called with the filters
  \<open>[64, 64, 256]\<close>, \<open>[128, 128, 512]\<close>, \<open>[256, 256, 1024]\<close> and \<open>[512, 512, 2048]\<close>
  of its stage.
\<close>

theorem ResNet50_stage_blocks:
  "length (implementation_calls input_shape classes) = 16 \<and>
   implementation_calls input_shape classes =
     stage_calls 2 (implementation_calls input_shape classes) @
     stage_calls 3 (implementation_calls input_shape classes) @
     stage_calls 4 (implementation_calls input_shape classes) @
     stage_calls 5 (implementation_calls input_shape classes) \<and>
   stage_blocks 2 (implementation_calls input_shape classes) =
     [(''convolutional_block'', [64, 64, 256]),
      (''residual_block'', [64, 64, 256]), (''residual_block'', [64, 64, 256])] \<and>
   stage_blocks 3 (implementation_calls input_shape classes) =
     [(''convolutional_block'', [128, 128, 512]),
      (''residual_block'', [128, 128, 512]), (''residual_block'', [128, 128, 512]),
      (''residual_block'', [128, 128, 512])] \<and>
   stage_blocks 4 (implementation_calls input_shape classes) =
     [(''convolutional_block'', [256, 256, 1024]),
      (''residual_block'', [256, 256, 1024]), (''residual_block'', [256, 256, 1024]),
      (''residual_block'', [256, 256, 1024]), (''residual_block'', [256, 256, 1024]),
      (''residual_block'', [256, 256, 1024])] \<and>
   stage_blocks 5 (implementation_calls input_shape classes) =
     [(''convolutional_block'', [512, 512, 2048]),
      (''residual_block'', [512, 512, 2048]), (''residual_block'', [512, 512, 2048])] \<and>
   length (overview_calls input_shape classes) = 16 \<and>
   overview_calls input_shape classes =
     stage_calls 2 (overview_calls input_shape classes) @
     stage_calls 3 (overview_calls input_shape classes) @
     stage_calls 4 (overview_calls input_shape classes) @
     stage_calls 5 (overview_calls input_shape classes) \<and>
   stage_blocks 2 (overview_calls input_shape classes) =
     [(''convolutional_block'', [64, 64, 256]),
      (''identity_block'', [64, 64, 256]), (''identity_block'', [64, 64, 256])] \<and>
   stage_blocks 3 (overview_calls input_shape classes) =
     [(''convolutional_block'', [128, 128, 512]),
      (''identity_block'', [128, 128, 512]), (''identity_block'', [128, 128, 512]),
      (''identity_block'', [128, 128, 512])] \<and>
   stage_blocks 4 (overview_calls input_shape classes) =
     [(''convolutional_block'', [256, 256, 1024]),
      (''identity_block'', [256, 256, 1024]), (''identity_block'', [256, 256, 1024]),
      (''identity_block'', [256, 256, 1024]), (''identity_block'', [256, 256, 1024]),
      (''identity_block'', [256, 256, 1024])] \<and>
   stage_blocks 5 (overview_calls input_shape classes) =
     [(''convolutional_block'', [512, 512, 2048]),
      (''identity_block'', [512, 512, 2048]), (''identity_block'', [512, 512, 2048])]"
  by (simp add: implementation_calls_eq overview_calls_eq stage_blocks_def stage_calls_def)

text \<open>
  Claim C2, as stated, fails at stage 2: the first block of stage 2 is called with
  \<^verbatim>\<open>s = 1\<close>, not with stride 2.
\<close>

theorem ResNet50_stage2_stride_counterexample:
  "first_block 2 (implementation_calls [28, 28, 1] 10) \<noteq> Some (''convolutional_block'', Some 2)"
  by (simp add: implementation_calls_eq first_block_def stage_calls_def)

text \<open>
  Claim C2, amended.  In both notebooks the first block of each of the stages 2, 3, 4 and 5
  is a \<^verbatim>\<open>convolutional_block\<close>; it is called with stride 2 in the stages 3, 4 and 5 and
  with stride 1 in stage 2.
\<close>

theorem ResNet50_first_block_strides:
  "map (\<lambda>n. first_block n (implementation_calls input_shape classes)) [2, 3, 4, 5] =
     [Some (''convolutional_block'', Some 1), Some (''convolutional_block'', Some 2),
      Some (''convolutional_block'', Some 2), Some (''convolutional_block'', Some 2)] \<and>
   map (\<lambda>n. first_block n (overview_calls input_shape classes)) [2, 3, 4, 5] =
     [Some (''convolutional_block'', Some 1), Some (''convolutional_block'', Some 2),
      Some (''convolutional_block'', Some 2), Some (''convolutional_block'', Some 2)]"
  by (simp add: implementation_calls_eq overview_calls_eq first_block_def stage_calls_def)

section \<open>The graph that \<^verbatim>\<open>ResNet50\<close> builds\<close>

lemma residual_block_returns: "\<not> isl (residual_block call X f [a, b, c] stage block)"
  by (simp add: residual_block_def unpack3_three and_then_def Let_def)

lemma convolutional_block_returns:
  "\<not> isl (convolutional_block call X f [a, b, c] stage block s)"
  by (simp add: convolutional_block_def unpack3_three and_then_def Let_def)

lemma ResNet50_returns:
  "\<exists>m. ResNet50 call (implementation_globals call) input_shape classes = Inr m"
proof -
  have "\<not> isl (ResNet50 call (implementation_globals call) input_shape classes)"
    by (simp add: ResNet50_def implementation_globals_def call_global_def read_global_def
        and_then_returns residual_block_returns convolutional_block_returns Let_def)
  then show ?thesis
    by (cases "ResNet50 call (implementation_globals call) input_shape classes") simp_all
qed

lemma ResNet50_head:
  assumes "ResNet50 call G input_shape classes = Inr m"
  shows "\<exists>X. outputs m = call (Dense classes ''softmax'' (Some (''fc'' @ str classes))
                             (glorot_uniform (Some 0))) [X]"
  using assms by (auto simp add: ResNet50_def and_then_Inr Let_def)

lemma seeded_graph_Node:
  "seeded_graph (Node l xs) \<longleftrightarrow> seeded_layer l \<and> (\<forall>x \<in> set xs. seeded_graph x)"
  by (auto simp add: seeded_graph_def)

lemma residual_block_seeded:
  assumes "residual_block Node X f filters stage block = Inr Y" and "seeded_graph X"
  shows "seeded_graph Y"
proof (cases "length filters = 3")
  case True
  then obtain a b c where "filters = [a, b, c]"
    using length_three by blast
  with assms show ?thesis
    by (auto simp add: residual_block_def unpack3_three and_then_def Let_def
        seeded_graph_Node seeded_layer_def)
next
  case False
  with assms show ?thesis
    by (simp add: residual_block_def unpack3_other and_then_def)
qed

lemma convolutional_block_seeded:
  assumes "convolutional_block Node X f filters stage block s = Inr Y" and "seeded_graph X"
  shows "seeded_graph Y"
proof (cases "length filters = 3")
  case True
  then obtain a b c where "filters = [a, b, c]"
    using length_three by blast
  with assms show ?thesis
    by (auto simp add: convolutional_block_def unpack3_three and_then_def Let_def
        seeded_graph_Node seeded_layer_def)
next
  case False
  with assms show ?thesis
    by (simp add: convolutional_block_def unpack3_other and_then_def)
qed

lemma ResNet50_seeded:
  "ResNet50 Node (implementation_globals Node) input_shape classes = Inr m \<Longrightarrow>
   seeded_graph (outputs m)"
  apply (clarsimp simp add: ResNet50_def implementation_globals_def call_global_def
      read_global_def and_then_Inr Let_def seeded_graph_Node seeded_layer_def)
  apply ((erule residual_block_seeded convolutional_block_seeded)+)
  apply (simp add: seeded_graph_Node seeded_layer_def)
  done

text \<open>
  Claim C3 fails on the code.  In the overview notebook \<^verbatim>\<open>ResNet50\<close>, for every
  \<open>input_shape\<close> and \<open>classes\<close> (its defaults are \<open>(64, 64, 3)\<close> and \<open>6\<close>), raises the
  \<^verbatim>\<open>UnboundLocalError\<close> of its first \<^verbatim>\<open>convolutional_block\<close> call and builds no graph,
  while \<^verbatim>\<open>ResNet50\<close> of the implementation notebook returns a model.
\<close>

theorem ResNet50_overview_builds_no_graph:
  "ResNet50_overview Node (overview_globals Node) input_shape classes
     = Inl (UnboundLocalError ''X_shortcut'') \<and>
   ResNet50_overview Node (overview_globals Node) [64, 64, 3] 6
     = Inl (UnboundLocalError ''X_shortcut'') \<and>
   (\<exists>m. ResNet50 Node (implementation_globals Node) input_shape classes = Inr m)"
  using ResNet50_returns [of Node input_shape classes]
  by (simp add: ResNet50_overview_def overview_globals_def call_global_def read_global_def
      and_then_def convolutional_block_overview_def unpack3_three read_local_def Let_def)

text \<open>
  Claim C10.  Every layer of the model that \<^verbatim>\<open>ResNet50\<close> of the implementation notebook
  returns either owns no kernel or has the kernel initializer \<^verbatim>\<open>glorot_uniform(seed=0)\<close>.
  Hence, for a library whose seeded initializer draws the same values whatever the state
  of the random source, the initial kernel of every layer of the model is the same in any
  two states of the random source.  The model itself is a function of \<open>input_shape\<close>
  and \<open>classes\<close> alone.
\<close>

theorem ResNet50_kernels_deterministic:
  assumes "\<And>seed r r' shp.
             draw (glorot_uniform (Some seed)) r shp = draw (glorot_uniform (Some seed)) r' shp"
  shows "\<exists>m. ResNet50 Node (implementation_globals Node) input_shape classes = Inr m \<and>
           (\<forall>l \<in> set_graph (outputs m).
              (kernel_initializer l = None \<or>
               kernel_initializer l = Some (glorot_uniform (Some 0))) \<and>
              (\<forall>r r' shp. initial_kernel draw r l shp = initial_kernel draw r' l shp))"
proof -
  obtain m where m: "ResNet50 Node (implementation_globals Node) input_shape classes = Inr m"
    using ResNet50_returns by blast
  have seeded: "seeded_graph (outputs m)"
    using m by (rule ResNet50_seeded)
  have "(kernel_initializer l = None \<or> kernel_initializer l = Some (glorot_uniform (Some 0))) \<and>
        (\<forall>r r' shp. initial_kernel draw r l shp = initial_kernel draw r' l shp)"
    if "l \<in> set_graph (outputs m)" for l
  proof -
    from seeded that have "seeded_layer l"
      by (simp add: seeded_graph_def)
    then show ?thesis
      using assms
      by (cases "kernel_initializer l") (simp_all add: seeded_layer_def initial_kernel_def)
  qed
  with m show ?thesis
    by blast
qed

theorem ResNet50_kernels_deterministic_witness:
  "(\<forall>seed r r' shp. example_draw (glorot_uniform (Some seed)) r shp
                     = example_draw (glorot_uniform (Some seed)) r' shp) \<and>
   example_draw (glorot_uniform None) 1 [2048, 10] \<noteq> example_draw (glorot_uniform None) 2 [2048, 10] \<and>
   (\<exists>m. ResNet50 Node (implementation_globals Node) [28, 28, 1] 10 = Inr m \<and>
        Dense 10 ''softmax'' (Some ''fc10'') (glorot_uniform (Some 0)) \<in> set_graph (outputs m) \<and>
        initial_kernel example_draw 1
            (Dense 10 ''softmax'' (Some ''fc10'') (glorot_uniform (Some 0))) [2048]
          = initial_kernel example_draw 2
            (Dense 10 ''softmax'' (Some ''fc10'') (glorot_uniform (Some 0))) [2048])"
proof -
  have h: "\<And>seed r r' shp. example_draw (glorot_uniform (Some seed)) r shp
                            = example_draw (glorot_uniform (Some seed)) r' shp"
    by (simp add: example_draw_def)
  obtain m where m: "ResNet50 Node (implementation_globals Node) [28, 28, 1] 10 = Inr m"
    and layers: "\<forall>l \<in> set_graph (outputs m).
              (kernel_initializer l = None \<or>
               kernel_initializer l = Some (glorot_uniform (Some 0))) \<and>
              (\<forall>r r' shp. initial_kernel example_draw r l shp = initial_kernel example_draw r' l shp)"
    using ResNet50_kernels_deterministic [of example_draw "[28, 28, 1]" 10, OF h] by blast
  have "Dense 10 ''softmax'' (Some ''fc10'') (glorot_uniform (Some 0)) \<in> set_graph (outputs m)"
    using ResNet50_head [OF m] by (auto simp add: str_digits)
  with m layers h show ?thesis
    by (auto simp add: example_draw_def)
qed

section \<open>Running the implementation notebook\<close>

lemmas cell_defs = lookup_def read_global_def get_int_def get_array_def get_model_def
  first_dim_def reshape_def mnist_load_data_def reshape_stmt_def astype_stmt_def
  divide_stmt_def to_categorical_stmt_def and_then_def

lemma run_cells_append: "run_cells (cs @ ds) G = and_then (run_cells cs G) (run_cells ds)"
  by (induction cs arbitrary: G) (auto simp add: and_then_def split: sum.splits)

lemma cells_up_to_fit:
  "\<exists>G. run_cells (take 8 (notebook_cells ''channels_last'')) Map.empty = Inr G \<and>
       G ''plt'' \<noteq> None \<and> G ''history'' = None"
proof -
  obtain m where m: "ResNet50 Node (implementation_globals Node) [28, 28, 1] 10 = Inr m"
    using ResNet50_returns by blast
  show ?thesis
    by (simp add: notebook_cells_def imports_cell_def data_formatting_cell_def shape_cell_def
        def_cell_def model_cell_def fit_cell_def block_bindings_def block_binding_def
        m [unfolded implementation_globals_def] cell_defs)
qed

text \<open>
  Claim C9.  Run in a namespace where the imports are bound and \<^verbatim>\<open>input_shape\<close> is not,
  the data-formatting cell completes.  When the image data format is
  \<^verbatim>\<open>channels_first\<close> it has reshaped the data and \<^verbatim>\<open>input_shape\<close> is still unbound, so
  that reading it raises \<^verbatim>\<open>NameError\<close>; when the format is \<^verbatim>\<open>channels_last\<close>,
  \<^verbatim>\<open>input_shape\<close> is bound to \<open>(28, 28, 1)\<close> and reading it returns.
\<close>

theorem data_formatting_input_shape:
  assumes "G ''mnist'' \<noteq> None" and "G ''K'' \<noteq> None" and "G ''keras'' \<noteq> None"
    and "G ''input_shape'' = None"
  shows "\<exists>G'. data_formatting_cell image_data_format G = Inr G' \<and>
           (image_data_format = ''channels_first'' \<longrightarrow>
              G' ''x_train'' = Some (ArrayV [60000, 1, 28, 28] ''float32'') \<and>
              G' ''x_test'' = Some (ArrayV [10000, 1, 28, 28] ''float32'') \<and>
              G' ''input_shape'' = None \<and>
              lookup G' ''input_shape'' = Inl (NameError ''input_shape'')) \<and>
           (image_data_format = ''channels_last'' \<longrightarrow>
              G' ''x_train'' = Some (ArrayV [60000, 28, 28, 1] ''float32'') \<and>
              G' ''x_test'' = Some (ArrayV [10000, 28, 28, 1] ''float32'') \<and>
              lookup G' ''input_shape'' = Inr (TupleV [28, 28, 1]))"
  using assms
  by (cases "image_data_format = ''channels_first''")
     (auto simp add: data_formatting_cell_def cell_defs)

theorem data_formatting_input_shape_witness:
  "(\<exists>G'. data_formatting_cell ''channels_first''
            [''mnist'' \<mapsto> ImportedV ''keras.datasets.mnist'', ''K'' \<mapsto> ImportedV ''keras.backend'',
             ''keras'' \<mapsto> ImportedV ''keras''] = Inr G' \<and>
         lookup G' ''input_shape'' = Inl (NameError ''input_shape'')) \<and>
   (\<exists>G'. data_formatting_cell ''channels_last''
            [''mnist'' \<mapsto> ImportedV ''keras.datasets.mnist'', ''K'' \<mapsto> ImportedV ''keras.backend'',
             ''keras'' \<mapsto> ImportedV ''keras''] = Inr G' \<and>
         lookup G' ''input_shape'' = Inr (TupleV [28, 28, 1]))"
proof -
  let ?G = "[''mnist'' \<mapsto> ImportedV ''keras.datasets.mnist'', ''K'' \<mapsto> ImportedV ''keras.backend'',
             ''keras'' \<mapsto> ImportedV ''keras'']"
  have h1: "?G ''mnist'' \<noteq> None" and h2: "?G ''K'' \<noteq> None" and h3: "?G ''keras'' \<noteq> None"
    and h4: "?G ''input_shape'' = None"
    by simp_all
  show ?thesis
    using data_formatting_input_shape [OF h1 h2 h3 h4, of "''channels_first''"]
      data_formatting_input_shape [OF h1 h2 h3 h4, of "''channels_last''"]
    by blast
qed

text \<open>
  Claim C5 fails on the code.  Started in an empty namespace with the image data format
  \<^verbatim>\<open>channels_last\<close>, the cells up to and including the \<^verbatim>\<open>model.fit\<close> cell complete and
  leave \<^verbatim>\<open>history\<close> unbound; running all cells once in their listed order ends in the
  accuracy-plot cell with \<^verbatim>\<open>NameError\<close> for \<^verbatim>\<open>history\<close>.
\<close>

theorem notebook_in_order_raises_NameError:
  "run_cells (notebook_cells ''channels_last'') Map.empty = Inl (NameError ''history'') \<and>
   (\<exists>G. run_cells (take 8 (notebook_cells ''channels_last'')) Map.empty = Inr G \<and>
        G ''history'' = None)"
proof -
  obtain G where G: "run_cells (take 8 (notebook_cells ''channels_last'')) Map.empty = Inr G"
    and plt: "G ''plt'' \<noteq> None" and history: "G ''history'' = None"
    using cells_up_to_fit by blast
  have split: "take 8 (notebook_cells ''channels_last'') @ [accuracy_plot_cell, loss_plot_cell]
                 = notebook_cells ''channels_last''"
    by (simp add: notebook_cells_def)
  have "run_cells (take 8 (notebook_cells ''channels_last'') @
                   [accuracy_plot_cell, loss_plot_cell]) Map.empty
          = and_then (Inr G) (run_cells [accuracy_plot_cell, loss_plot_cell])"
    using G by (simp only: run_cells_append)
  then have "run_cells (notebook_cells ''channels_last'') Map.empty
               = and_then (Inr G) (run_cells [accuracy_plot_cell, loss_plot_cell])"
    by (simp only: split)
  also have "\<dots> = Inl (NameError ''history'')"
    using plt history
    by (auto simp add: accuracy_plot_cell_def and_then_def lookup_def read_global_def)
  finally show ?thesis
    using G history by blast
qed

end
